theory Spec2Isabelle
  imports Complex_Main "HOL-Library.Word" "HOL-Library.Code_Target_Numeral"
begin

section \<open>Data model of \<^verbatim>\<open>bno055_publisher.cpp\<close>\<close>

text \<open>
  The node stores and copies 64-bit floating-point numbers but never computes with them, so
  a \<^verbatim>\<open>double\<close> is modelled by the real number its literal denotes. A time stamp is a
  count of clock units.
\<close>

type_synonym double = real
type_synonym time = nat

text \<open>The sensor driver's result types: \<^verbatim>\<open>accel.x\<close>, \<^verbatim>\<open>quats.w\<close>, and so on.\<close>

record Vector3 =
  vx :: double
  vy :: double
  vz :: double

record Quaternion =
  qw :: double
  qx :: double
  qy :: double
  qz :: double

text \<open>\<^verbatim>\<open>sensor_msgs::msg::Imu\<close>: a header, three measurements and three 9-element arrays.\<close>

record Header =
  stamp :: time
  frame_id :: string

record Imu =
  header :: Header
  orientation :: Quaternion
  orientation_covariance :: "double list"
  angular_velocity :: Vector3
  angular_velocity_covariance :: "double list"
  linear_acceleration :: Vector3
  linear_acceleration_covariance :: "double list"

text \<open>
  The value of \<^verbatim>\<open>sensor_msgs::msg::Imu()\<close> (line 81): every number zero except the
  quaternion's \<^verbatim>\<open>w\<close>, an empty frame id, and three arrays of nine zeros.
\<close>

definition Imu_default :: Imu where
  "Imu_default =
     \<lparr>header = \<lparr>stamp = 0, frame_id = []\<rparr>,
      orientation = \<lparr>qw = 1, qx = 0, qy = 0, qz = 0\<rparr>,
      orientation_covariance = replicate 9 0,
      angular_velocity = \<lparr>vx = 0, vy = 0, vz = 0\<rparr>,
      angular_velocity_covariance = replicate 9 0,
      linear_acceleration = \<lparr>vx = 0, vy = 0, vz = 0\<rparr>,
      linear_acceleration_covariance = replicate 9 0\<rparr>"

text \<open>
  The data members of \<^verbatim>\<open>MinimalPublisher\<close> that the callback reads and writes (lines 81
  and 84). The timer, the publisher and the sensor handle are collaborators: what the node
  does to them is recorded as events, what they answer is an input.
\<close>

record MinimalPublisher =
  imuMsg :: Imu
  frameId :: string

text \<open>The C++ exceptions that the program's handlers tell apart.\<close>

datatype exn = Runtime_error | Invalid_argument | Out_of_range

text \<open>What the process does to the outside world, in order.\<close>

datatype event =
    Rclcpp_init
  | Log_error string
  | Sensor_open string "8 word"
  | Declare_parameter string string
  | Create_publisher string
  | Create_wall_timer nat
  | Node_constructed
  | Node_destroyed
  | Publish Imu
  | Reconnect
  | Sleep_for nat
  | Spin
  | Rclcpp_shutdown

text \<open>The line feed that ends every logged message of the source.\<close>

definition newline :: string where
  "newline = [CHR 0x0A]"

section \<open>Construction of the node (lines 18--43)\<close>

definition accelCovariance :: "double list" where
  "accelCovariance = [6753 / 10 ^ 8, 6753 / 10 ^ 8, 6753 / 10 ^ 8]"

definition gyroCovariance :: "double list" where
  "gyroCovariance = [305 / 10 ^ 8, 305 / 10 ^ 8, 305 / 10 ^ 8]"

definition quatCovariance :: "double list" where
  "quatCovariance = [159 / 10 ^ 4, 159 / 10 ^ 4, 159 / 10 ^ 4]"

text \<open>The body of the loop of lines 32--42 at index \<open>i\<close>.\<close>

definition covariance_body :: "nat \<Rightarrow> Imu \<Rightarrow> Imu" where
  "covariance_body i m =
     (if i mod 3 = 0 then
        m\<lparr>angular_velocity_covariance :=
             (angular_velocity_covariance m)[i := gyroCovariance ! (i div 3)],
          linear_acceleration_covariance :=
             (linear_acceleration_covariance m)[i := accelCovariance ! (i div 3)],
          orientation_covariance :=
             (orientation_covariance m)[i := quatCovariance ! (i div 3)]\<rparr>
      else
        m\<lparr>angular_velocity_covariance := (angular_velocity_covariance m)[i := 0],
          linear_acceleration_covariance := (linear_acceleration_covariance m)[i := 0],
          orientation_covariance := (orientation_covariance m)[i := 0]\<rparr>)"

text \<open>The loop: \<open>i\<close> runs from 0 up to the size of \<^verbatim>\<open>angular_velocity_covariance\<close>.\<close>

definition covariance_loop :: "Imu \<Rightarrow> Imu" where
  "covariance_loop m =
     fold covariance_body [0 ..< length (angular_velocity_covariance m)] m"

text \<open>
  \<^verbatim>\<open>declare_parameter(name, default)\<close> of the parameter collaborator: the value the
  environment gives the name, the default when it gives none.
\<close>

definition declare_parameter :: "(string \<rightharpoonup> string) \<Rightarrow> string \<Rightarrow> string \<Rightarrow> string" where
  "declare_parameter params name dflt = (case params name of None \<Rightarrow> dflt | Some v \<Rightarrow> v)"

text \<open>
  The constructor. \<open>opened\<close> is what opening the sensor does on this attempt: \<open>None\<close> when
  \<^verbatim>\<open>imu_(devDirectory, devAddress)\<close> returns, \<open>Some e\<close> when it throws \<open>e\<close>, which leaves
  the constructor before its body runs. The default handed to \<^verbatim>\<open>declare_parameter\<close> is
  the member initialiser of \<^verbatim>\<open>frameId_\<close> (line 84).
\<close>

definition MinimalPublisher_ctor ::
  "(string \<rightharpoonup> string) \<Rightarrow> exn option \<Rightarrow> string \<Rightarrow> 8 word \<Rightarrow>
     event list \<times> (exn + MinimalPublisher)" where
  "MinimalPublisher_ctor params opened devDirectory devAddress =
     (case opened of
        Some e \<Rightarrow> ([Sensor_open devDirectory devAddress], Inl e)
      | None \<Rightarrow>
          ([Sensor_open devDirectory devAddress,
            Declare_parameter ''frame_id'' ''imu_link'',
            Create_publisher ''imu'',
            Create_wall_timer 10],
           Inr \<lparr>imuMsg = covariance_loop Imu_default,
                frameId = declare_parameter params ''frame_id'' ''imu_link''\<rparr>))"

section \<open>The timer callback (lines 46--78)\<close>

text \<open>
  What the clock and the sensor handle answer during one tick, if asked: the current time,
  the three reads (a value, or the exception the read throws) and the result of
  \<^verbatim>\<open>reconnect()\<close>.
\<close>

record tick_env =
  now :: time
  getAccelMsq :: "exn + Vector3"
  getGyroRps :: "exn + Vector3"
  getQuaternion :: "exn + Quaternion"
  reconnect :: bool

text \<open>
  The handler of lines 72--77 for an exception \<open>e\<close> thrown in the \<^verbatim>\<open>try\<close> block. An
  exception that is not a \<^verbatim>\<open>std::runtime_error\<close> is not caught and leaves the callback.
\<close>

definition timer_handler ::
  "exn \<Rightarrow> tick_env \<Rightarrow> MinimalPublisher \<Rightarrow> MinimalPublisher \<times> event list \<times> exn option" where
  "timer_handler e env n =
     (if e = Runtime_error then
        (n,
         [Log_error (''Sensor connection is lost! Trying to reconnect...'' @ newline), Reconnect]
           @ (if \<not> reconnect env then [Sleep_for 1] else []),
         None)
      else (n, [], Some e))"

text \<open>
  The callback: the node after the tick, the events of the tick, and the exception that
  leaves the callback, if any.
\<close>

definition timer_callback ::
  "tick_env \<Rightarrow> MinimalPublisher \<Rightarrow> MinimalPublisher \<times> event list \<times> exn option" where
  "timer_callback env n =
     (let n1 = n\<lparr>imuMsg := (imuMsg n)\<lparr>header := (header (imuMsg n))\<lparr>stamp := now env\<rparr>\<rparr>\<rparr>;
          n2 = n1\<lparr>imuMsg := (imuMsg n1)\<lparr>header := (header (imuMsg n1))\<lparr>frame_id := frameId n1\<rparr>\<rparr>\<rparr>
      in case getAccelMsq env of
           Inl e \<Rightarrow> timer_handler e env n2
         | Inr accel \<Rightarrow>
            (case getGyroRps env of
               Inl e \<Rightarrow> timer_handler e env n2
             | Inr gyro \<Rightarrow>
                (case getQuaternion env of
                   Inl e \<Rightarrow> timer_handler e env n2
                 | Inr quats \<Rightarrow>
                    (let n3 = n2\<lparr>imuMsg := (imuMsg n2)
                               \<lparr>linear_acceleration :=
                                  \<lparr>vx = vx accel, vy = vy accel, vz = vz accel\<rparr>,
                                angular_velocity :=
                                  \<lparr>vx = vx gyro, vy = vy gyro, vz = vz gyro\<rparr>,
                                orientation :=
                                  \<lparr>qw = qw quats, qx = qx quats,
                                   qy = qy quats, qz = qz quats\<rparr>\<rparr>\<rparr>
                     in (n3, [Publish (imuMsg n3)], None)))))"

text \<open>
  The event loop calling the callback once per tick, on the environments of the successive
  ticks. An exception that leaves a callback leaves the loop.
\<close>

fun run_ticks ::
  "tick_env list \<Rightarrow> MinimalPublisher \<Rightarrow> MinimalPublisher \<times> event list \<times> exn option" where
  "run_ticks [] n = (n, [], None)"
| "run_ticks (env # envs) n =
     (case timer_callback env n of
        (n', evs, Some e) \<Rightarrow> (n', evs, Some e)
      | (n', evs, None) \<Rightarrow>
          (case run_ticks envs n' of (n'', evs', r) \<Rightarrow> (n'', evs @ evs', r)))"

section \<open>The entry point (lines 87--128)\<close>

subsection \<open>\<^verbatim>\<open>std::stoul(str, nullptr, 16)\<close>\<close>

text \<open>
  The library function as the C++ standard and \<^verbatim>\<open>strtoul\<close> define it: white space is
  skipped, then an optional sign and an optional \<^verbatim>\<open>0x\<close> prefix, then the longest run of
  hexadecimal digits is read and whatever follows is ignored. No digit at all throws
  \<^verbatim>\<open>std::invalid_argument\<close>, a value above \<^verbatim>\<open>ULONG_MAX\<close> throws
  \<^verbatim>\<open>std::out_of_range\<close>, and a minus sign negates the value modulo \<open>2 ^ 64\<close>.
  \<^verbatim>\<open>unsigned long\<close> has 64 bits on the platforms the node is built for.
\<close>

definition ULONG_MAX :: nat where
  "ULONG_MAX = 2 ^ 64 - 1"

definition isspace :: "char \<Rightarrow> bool" where
  "isspace c = (c = CHR '' '' \<or> (9 \<le> (of_char c :: nat) \<and> (of_char c :: nat) \<le> 13))"

definition hex_digit_value :: "char \<Rightarrow> nat option" where
  "hex_digit_value c =
     (let k = (of_char c :: nat)
      in if 48 \<le> k \<and> k \<le> 57 then Some (k - 48)
         else if 97 \<le> k \<and> k \<le> 102 then Some (k - 87)
         else if 65 \<le> k \<and> k \<le> 70 then Some (k - 55)
         else None)"

text \<open>The values of the longest run of hexadecimal digits at the start of a string.\<close>

fun hex_digits :: "string \<Rightarrow> nat list" where
  "hex_digits [] = []"
| "hex_digits (c # cs) =
     (case hex_digit_value c of None \<Rightarrow> [] | Some d \<Rightarrow> d # hex_digits cs)"

definition hex_value :: "nat list \<Rightarrow> nat" where
  "hex_value ds = foldl (\<lambda>acc d. 16 * acc + d) 0 ds"

definition skip_sign :: "string \<Rightarrow> bool \<times> string" where
  "skip_sign s =
     (case s of
        [] \<Rightarrow> (False, s)
      | c # r \<Rightarrow> if c = CHR ''-'' then (True, r) else if c = CHR ''+'' then (False, r)
                 else (False, s))"

definition skip_0x :: "string \<Rightarrow> string" where
  "skip_0x s =
     (case s of
        z # x # h # r \<Rightarrow>
          if z = CHR ''0'' \<and> (x = CHR ''x'' \<or> x = CHR ''X'') \<and> hex_digit_value h \<noteq> None
          then h # r else s
      | _ \<Rightarrow> s)"

definition stoul16 :: "string \<Rightarrow> exn + nat" where
  "stoul16 str =
     (case skip_sign (dropWhile isspace str) of
        (negative, s) \<Rightarrow>
          (let ds = hex_digits (skip_0x s)
           in if ds = [] then Inl Invalid_argument
              else if hex_value ds > ULONG_MAX then Inl Out_of_range
              else Inr (if negative then (2 ^ 64 - hex_value ds) mod 2 ^ 64
                        else hex_value ds)))"

subsection \<open>\<^verbatim>\<open>main\<close>\<close>

text \<open>
  How the process ends: \<^verbatim>\<open>main\<close> returns a value, or an exception that no handler
  catches leaves it. The status the parent process sees is the low eight bits of the
  returned value.
\<close>

datatype outcome = Returned int | Uncaught exn


text \<open>\<^verbatim>\<open>"%5s"\<close>: the argument, padded on the left to five characters.\<close>

definition pad5 :: "string \<Rightarrow> string" where
  "pad5 s = replicate (5 - length s) (CHR '' '') @ s"

text \<open>
  The loop of lines 114--122 and the lines after it. The environment's answers are inputs:
  \<open>oks\<close> holds the successive results of \<^verbatim>\<open>rclcpp::ok()\<close>, \<open>opens\<close> what opening the
  sensor does on the successive construction attempts, and \<open>ticks\<close> the timer ticks that
  \<^verbatim>\<open>rclcpp::spin\<close> fires before it returns. \<open>node\<close> is the shared pointer of line 113,
  \<open>None\<close> while it is null. Assigning a new node to it releases the node it held, after
  the new one has been constructed. The result \<open>None\<close> says that the loop is still running
  when the answers given run out.
\<close>

fun supervise ::
  "(string \<rightharpoonup> string) \<Rightarrow> string \<Rightarrow> 8 word \<Rightarrow> bool list \<Rightarrow> exn option list \<Rightarrow>
     tick_env list \<Rightarrow> MinimalPublisher option \<Rightarrow> event list \<times> outcome option" where
  "supervise params devDirectory devAddress [] opens ticks node = ([], None)"
| "supervise params devDirectory devAddress (False # oks) opens ticks node =
     (case node of
        None \<Rightarrow> ([Rclcpp_shutdown], Some (Returned 0))
      | Some n \<Rightarrow>
          (case run_ticks ticks n of
             (n', evs, Some e) \<Rightarrow> (Spin # evs, Some (Uncaught e))
           | (n', evs, None) \<Rightarrow>
               (Spin # evs @ [Rclcpp_shutdown, Node_destroyed], Some (Returned 0))))"
| "supervise params devDirectory devAddress (True # oks) [] ticks node = ([], None)"
| "supervise params devDirectory devAddress (True # oks) (opened # opens) ticks node =
     (case MinimalPublisher_ctor params opened devDirectory devAddress of
        (evs, Inr n) \<Rightarrow>
          (case supervise params devDirectory devAddress oks opens ticks (Some n) of
             (rest, r) \<Rightarrow>
               (evs @ [Node_constructed]
                  @ (if node \<noteq> None then [Node_destroyed] else [])
                  @ [Sleep_for 1] @ rest, r))
      | (evs, Inl e) \<Rightarrow>
          if e = Runtime_error then
            (case supervise params devDirectory devAddress oks opens ticks node of
               (rest, r) \<Rightarrow>
                 (evs @ [Log_error (''Cannot connect to I2C device!'' @ newline),
                         Sleep_for 1] @ rest, r))
          else (evs, Some (Uncaught e)))"

text \<open>
  \<^verbatim>\<open>main\<close>: \<open>argv\<close> holds the program name and the arguments, so \<^verbatim>\<open>argc\<close> is its
  length.
\<close>

definition main ::
  "string list \<Rightarrow> (string \<rightharpoonup> string) \<Rightarrow> bool list \<Rightarrow> exn option list \<Rightarrow> tick_env list \<Rightarrow>
     event list \<times> outcome option" where
  "main argv params oks opens ticks =
     (if length argv \<noteq> 3 then
        ([Rclcpp_init, Log_error (''Invalid command line arguments!'' @ newline)],
         Some (Returned (- 1)))
      else
        (let devDirectory = argv ! 1
         in case stoul16 (argv ! 2) of
              Inr devAdressInput \<Rightarrow>
                if devAdressInput > 255 then
                  ([Rclcpp_init, Log_error (''Device I2C adress is not valid!'' @ newline)],
                   Some (Returned (- 1)))
                else
                  (case supervise params devDirectory (of_nat devAdressInput)
                          oks opens ticks None of
                     (evs, r) \<Rightarrow> (Rclcpp_init # evs, r))
            | Inl e \<Rightarrow>
                if e = Invalid_argument then
                  ([Rclcpp_init,
                    Log_error (''Argument '' @ [CHR 0x22] @ pad5 (argv ! 2) @ [CHR 0x22]
                               @ '' is not a proper I2C adress!'' @ newline)],
                   Some (Returned (- 1)))
                else ([Rclcpp_init], Some (Uncaught e))))"

text \<open>The number of nodes alive after a sequence of events.\<close>

fun live_nodes :: "event list \<Rightarrow> int" where
  "live_nodes [] = 0"
| "live_nodes (Node_constructed # evs) = live_nodes evs + 1"
| "live_nodes (Node_destroyed # evs) = live_nodes evs - 1"
| "live_nodes (_ # evs) = live_nodes evs"

text \<open>The messages published and the calls counted in a sequence of events.\<close>

fun published :: "event list \<Rightarrow> Imu list" where
  "published [] = []"
| "published (Publish m # evs) = m # published evs"
| "published (_ # evs) = published evs"

definition is_sensor_open :: "event \<Rightarrow> bool" where
  "is_sensor_open ev = (case ev of Sensor_open _ _ \<Rightarrow> True | _ \<Rightarrow> False)"

definition is_declare_parameter :: "event \<Rightarrow> bool" where
  "is_declare_parameter ev = (case ev of Declare_parameter _ _ \<Rightarrow> True | _ \<Rightarrow> False)"

section \<open>Vocabulary of the properties\<close>

text \<open>
  The exception that the reads of a tick throw, taken in the order of lines 51--53: a read
  is attempted only when the ones before it returned.
\<close>

definition read_raises :: "tick_env \<Rightarrow> exn \<Rightarrow> bool" where
  "read_raises env e =
     (case getAccelMsq env of
        Inl e1 \<Rightarrow> e1 = e
      | Inr _ \<Rightarrow>
         (case getGyroRps env of
            Inl e2 \<Rightarrow> e2 = e
          | Inr _ \<Rightarrow> (case getQuaternion env of Inl e3 \<Rightarrow> e3 = e | Inr _ \<Rightarrow> False)))"

text \<open>A tick on which a read raises the recoverable connection error.\<close>

definition connection_lost :: "tick_env \<Rightarrow> bool" where
  "connection_lost env = read_raises env Runtime_error"

text \<open>The node after lines 48--49: the header of the buffer is stamped, nothing else changes.\<close>

definition stamped :: "tick_env \<Rightarrow> MinimalPublisher \<Rightarrow> MinimalPublisher" where
  "stamped env n =
     n\<lparr>imuMsg := (imuMsg n)\<lparr>header := (header (imuMsg n))\<lparr>stamp := now env, frame_id := frameId n\<rparr>\<rparr>\<rparr>"

text \<open>The number of calls of \<^verbatim>\<open>reconnect()\<close> in a sequence of events.\<close>

definition reconnect_calls :: "event list \<Rightarrow> nat" where
  "reconnect_calls evs = length (filter (\<lambda>ev. ev = Reconnect) evs)"

text \<open>Sample inputs: a node as the constructor leaves it, and the environments of three ticks.\<close>

definition sample_node :: MinimalPublisher where
  "sample_node = \<lparr>imuMsg = covariance_loop Imu_default, frameId = ''imu_link''\<rparr>"

definition tick_reads_ok :: tick_env where
  "tick_reads_ok =
     \<lparr>now = 7,
      getAccelMsq = Inr \<lparr>vx = 1, vy = 2, vz = 3\<rparr>,
      getGyroRps = Inr \<lparr>vx = 4, vy = 5, vz = 6\<rparr>,
      getQuaternion = Inr \<lparr>qw = 1, qx = 0, qy = 0, qz = 0\<rparr>,
      reconnect = True\<rparr>"

definition tick_gyro_lost :: tick_env where
  "tick_gyro_lost = tick_reads_ok\<lparr>now := 8, getGyroRps := Inl Runtime_error, reconnect := False\<rparr>"

definition tick_accel_lost :: tick_env where
  "tick_accel_lost = tick_reads_ok\<lparr>now := 9, getAccelMsq := Inl Runtime_error\<rparr>"





section \<open>Properties of the timer callback\<close>

lemma header_stamped:
  "header (imuMsg (stamped env n)) = \<lparr>stamp = now env, frame_id = frameId n\<rparr>"
  by (cases "header (imuMsg n)") (simp add: stamped_def)

lemma timer_callback_raises:
  assumes "read_raises env e"
  shows "timer_callback env n = timer_handler e env (stamped env n)"
  using assms
  by (auto simp: timer_callback_def read_raises_def stamped_def Let_def split: sum.splits)

lemma timer_callback_reads_ok:
  assumes "getAccelMsq env = Inr accel" "getGyroRps env = Inr gyro" "getQuaternion env = Inr quats"
  shows "timer_callback env n =
           (n\<lparr>imuMsg := (imuMsg (stamped env n))
                 \<lparr>linear_acceleration := accel, angular_velocity := gyro, orientation := quats\<rparr>\<rparr>,
            [Publish ((imuMsg (stamped env n))
                 \<lparr>linear_acceleration := accel, angular_velocity := gyro, orientation := quats\<rparr>)],
            None)"
  using assms
  by (simp add: timer_callback_def stamped_def Let_def)

lemma timer_callback_cases:
  obtains e where "read_raises env e"
  | a g q where "getAccelMsq env = Inr a" "getGyroRps env = Inr g" "getQuaternion env = Inr q"
  by (cases "getAccelMsq env"; cases "getGyroRps env"; cases "getQuaternion env")
     (auto simp: read_raises_def)

lemma timer_callback_frameId:
  "timer_callback env n = (n', evs, r) \<Longrightarrow> frameId n' = frameId n"
  by (auto simp: timer_callback_def timer_handler_def Let_def split: sum.splits if_splits)

lemma run_ticks_frameId:
  "run_ticks envs n = (n', evs, r) \<Longrightarrow> frameId n' = frameId n"
proof (induction envs arbitrary: n n' evs r)
  case Nil
  then show ?case by simp
next
  case (Cons env envs)
  obtain n1 evs1 r1 where step: "timer_callback env n = (n1, evs1, r1)"
    by (cases "timer_callback env n") auto
  have f1: "frameId n1 = frameId n"
    using step by (rule timer_callback_frameId)
  show ?case
  proof (cases r1)
    case None
    obtain n2 evs2 r2 where rest: "run_ticks envs n1 = (n2, evs2, r2)"
      by (cases "run_ticks envs n1") auto
    with Cons.prems step None have "n' = n2" by simp
    with Cons.IH [OF rest] f1 show ?thesis by simp
  next
    case (Some e)
    with Cons.prems step have "n' = n1" by simp
    with f1 show ?thesis by simp
  qed
qed

lemma published_append: "published (xs @ ys) = published xs @ published ys"
  by (induction xs rule: published.induct) simp_all

lemma timer_callback_published:
  assumes "timer_callback env n = (n', evs, r)" and "m \<in> set (published evs)"
  shows "getAccelMsq env = Inr (linear_acceleration m)
       \<and> getGyroRps env = Inr (angular_velocity m)
       \<and> getQuaternion env = Inr (orientation m)
       \<and> stamp (header m) = now env
       \<and> frame_id (header m) = frameId n"
proof (cases rule: timer_callback_cases [of env])
  case (1 e)
  from timer_callback_raises [OF 1, of n] assms show ?thesis
    by (auto simp: timer_handler_def split: if_splits)
next
  case (2 a g q)
  from timer_callback_reads_ok [OF 2, of n] assms show ?thesis
    by (auto simp: 2 header_stamped)
qed

lemma run_ticks_published:
  assumes "run_ticks envs n = (n', evs, r)" and "m \<in> set (published evs)"
  shows "\<exists>env \<in> set envs.
           getAccelMsq env = Inr (linear_acceleration m)
         \<and> getGyroRps env = Inr (angular_velocity m)
         \<and> getQuaternion env = Inr (orientation m)
         \<and> stamp (header m) = now env
         \<and> frame_id (header m) = frameId n"
  using assms
proof (induction envs arbitrary: n n' evs r)
  case Nil
  then show ?case by simp
next
  case (Cons env envs)
  obtain n1 evs1 r1 where step: "timer_callback env n = (n1, evs1, r1)"
    by (cases "timer_callback env n") auto
  have f1: "frameId n1 = frameId n"
    using step by (rule timer_callback_frameId)
  show ?case
  proof (cases "m \<in> set (published evs1)")
    case True
    from timer_callback_published [OF step True] show ?thesis by simp
  next
    case False
    show ?thesis
    proof (cases r1)
      case (Some e)
      with Cons.prems step have "evs = evs1" by simp
      with False Cons.prems show ?thesis by simp
    next
      case None
      obtain n2 evs2 r2 where rest: "run_ticks envs n1 = (n2, evs2, r2)"
        by (cases "run_ticks envs n1") auto
      with Cons.prems step None have "evs = evs1 @ evs2" by simp
      with False Cons.prems have "m \<in> set (published evs2)"
        by (simp add: published_append)
      from Cons.IH [OF rest this] f1 show ?thesis by auto
    qed
  qed
qed

lemma run_ticks_all_lost:
  "list_all connection_lost envs \<Longrightarrow>
     (\<exists>n' evs. run_ticks envs n = (n', evs, None) \<and> published evs = []
        \<and> reconnect_calls evs = length envs)"
proof (induction envs arbitrary: n)
  case Nil
  show ?case by (simp add: reconnect_calls_def)
next
  case (Cons env envs)
  from Cons.prems have "connection_lost env" and rest: "list_all connection_lost envs"
    by simp_all
  then have lost: "read_raises env Runtime_error"
    by (simp add: connection_lost_def)
  obtain evs1 where step: "timer_callback env n = (stamped env n, evs1, None)"
    and p1: "published evs1 = []" and r1: "reconnect_calls evs1 = 1"
    using timer_callback_raises [OF lost, of n]
    by (simp add: timer_handler_def reconnect_calls_def)
  from Cons.IH [OF rest, of "stamped env n"]
  obtain n' evs where run: "run_ticks envs (stamped env n) = (n', evs, None)"
    and p2: "published evs = []" and r2: "reconnect_calls evs = length envs"
    by blast
  have "run_ticks (env # envs) n = (n', evs1 @ evs, None)"
    using step run by simp
  moreover have "published (evs1 @ evs) = []"
    using p1 p2 by (simp add: published_append)
  moreover have "reconnect_calls (evs1 @ evs) = length (env # envs)"
    using r1 r2 by (simp add: reconnect_calls_def)
  ultimately show ?case by blast
qed

lemma timer_callback_covariance:
  assumes "timer_callback env n = (n', evs, r)"
  shows "linear_acceleration_covariance (imuMsg n') = linear_acceleration_covariance (imuMsg n)
       \<and> angular_velocity_covariance (imuMsg n') = angular_velocity_covariance (imuMsg n)
       \<and> orientation_covariance (imuMsg n') = orientation_covariance (imuMsg n)"
proof (cases rule: timer_callback_cases [of env])
  case (1 e)
  from timer_callback_raises [OF 1, of n] assms show ?thesis
    by (auto simp: timer_handler_def stamped_def split: if_splits)
next
  case (2 a g q)
  from timer_callback_reads_ok [OF 2, of n] assms show ?thesis
    by (auto simp: stamped_def)
qed

lemma run_ticks_covariance:
  "run_ticks envs n = (n', evs, r) \<Longrightarrow>
     linear_acceleration_covariance (imuMsg n') = linear_acceleration_covariance (imuMsg n)
   \<and> angular_velocity_covariance (imuMsg n') = angular_velocity_covariance (imuMsg n)
   \<and> orientation_covariance (imuMsg n') = orientation_covariance (imuMsg n)"
proof (induction envs arbitrary: n n' evs r)
  case Nil
  then show ?case by simp
next
  case (Cons env envs)
  obtain n1 evs1 r1 where step: "timer_callback env n = (n1, evs1, r1)"
    by (cases "timer_callback env n") auto
  note c1 = timer_callback_covariance [OF step]
  show ?case
  proof (cases r1)
    case None
    obtain n2 evs2 r2 where rest: "run_ticks envs n1 = (n2, evs2, r2)"
      by (cases "run_ticks envs n1") auto
    with Cons.prems step None have "n' = n2" by simp
    with Cons.IH [OF rest] c1 show ?thesis by simp
  next
    case (Some e)
    with Cons.prems step have "n' = n1" by simp
    with c1 show ?thesis by simp
  qed
qed

lemma timer_callback_no_declare:
  "timer_callback env n = (n', evs, r) \<Longrightarrow> filter is_declare_parameter evs = []"
  by (auto simp: timer_callback_def timer_handler_def is_declare_parameter_def Let_def
        split: sum.splits if_splits)

lemma run_ticks_no_declare:
  "run_ticks envs n = (n', evs, r) \<Longrightarrow> filter is_declare_parameter evs = []"
proof (induction envs arbitrary: n n' evs r)
  case Nil
  then show ?case by simp
next
  case (Cons env envs)
  obtain n1 evs1 r1 where step: "timer_callback env n = (n1, evs1, r1)"
    by (cases "timer_callback env n") auto
  note d1 = timer_callback_no_declare [OF step]
  show ?case
  proof (cases r1)
    case None
    obtain n2 evs2 r2 where rest: "run_ticks envs n1 = (n2, evs2, r2)"
      by (cases "run_ticks envs n1") auto
    with Cons.prems step None have "evs = evs1 @ evs2" by simp
    with Cons.IH [OF rest] d1 show ?thesis by simp
  next
    case (Some e)
    with Cons.prems step have "evs = evs1" by simp
    with d1 show ?thesis by simp
  qed
qed

text \<open>The callback on the sample ticks.\<close>

lemma connection_lost_samples:
  "connection_lost tick_gyro_lost" "connection_lost tick_accel_lost"
  by (simp_all add: connection_lost_def read_raises_def tick_gyro_lost_def tick_accel_lost_def
        tick_reads_ok_def)

lemma timer_callback_gyro_lost:
  "timer_callback tick_gyro_lost n =
     (stamped tick_gyro_lost n,
      [Log_error (''Sensor connection is lost! Trying to reconnect...'' @ newline),
       Reconnect, Sleep_for 1],
      None)"
  using timer_callback_raises [OF connection_lost_samples(1) [unfolded connection_lost_def], of n]
  by (simp add: timer_handler_def tick_gyro_lost_def)

lemma timer_callback_accel_lost:
  "timer_callback tick_accel_lost n =
     (stamped tick_accel_lost n,
      [Log_error (''Sensor connection is lost! Trying to reconnect...'' @ newline), Reconnect],
      None)"
  using timer_callback_raises [OF connection_lost_samples(2) [unfolded connection_lost_def], of n]
  by (simp add: timer_handler_def tick_accel_lost_def tick_reads_ok_def)

lemma timer_callback_sample_ok:
  "timer_callback tick_reads_ok n =
     (n\<lparr>imuMsg := (imuMsg (stamped tick_reads_ok n))
           \<lparr>linear_acceleration := \<lparr>vx = 1, vy = 2, vz = 3\<rparr>,
            angular_velocity := \<lparr>vx = 4, vy = 5, vz = 6\<rparr>,
            orientation := \<lparr>qw = 1, qx = 0, qy = 0, qz = 0\<rparr>\<rparr>\<rparr>,
      [Publish ((imuMsg (stamped tick_reads_ok n))
           \<lparr>linear_acceleration := \<lparr>vx = 1, vy = 2, vz = 3\<rparr>,
            angular_velocity := \<lparr>vx = 4, vy = 5, vz = 6\<rparr>,
            orientation := \<lparr>qw = 1, qx = 0, qy = 0, qz = 0\<rparr>\<rparr>)],
      None)"
  by (rule timer_callback_reads_ok) (simp_all add: tick_reads_ok_def)

text \<open>
  Claim C4. On a tick on which a sensor read raises the recoverable connection error, the
  callback logs the fault, calls \<^verbatim>\<open>reconnect()\<close> exactly once, publishes nothing, sleeps
  for one second if and only if \<^verbatim>\<open>reconnect()\<close> returned false, and returns normally.
  No retry count bounds the recovery: over any number of consecutive failing ticks there is
  one call of \<^verbatim>\<open>reconnect()\<close> per tick and nothing is published.
\<close>

theorem C4_failed_read_reconnects_once:
  assumes "connection_lost env"
      and "timer_callback env n = (n', evs, r)"
      and "list_all connection_lost envs"
      and "run_ticks envs n = (n'', evs', r')"
  shows "evs = [Log_error (''Sensor connection is lost! Trying to reconnect...'' @ newline),
                Reconnect] @ (if reconnect env then [] else [Sleep_for 1])
       \<and> published evs = []
       \<and> reconnect_calls evs = 1
       \<and> (Sleep_for 1 \<in> set evs \<longleftrightarrow> \<not> reconnect env)
       \<and> r = None
       \<and> reconnect_calls evs' = length envs
       \<and> published evs' = []
       \<and> r' = None"
proof -
  have lost: "read_raises env Runtime_error"
    using assms(1) by (simp add: connection_lost_def)
  have tick: "evs = [Log_error (''Sensor connection is lost! Trying to reconnect...'' @ newline),
                Reconnect] @ (if reconnect env then [] else [Sleep_for 1]) \<and> r = None"
    using timer_callback_raises [OF lost, of n] assms(2) by (simp add: timer_handler_def)
  have one: "published evs = [] \<and> reconnect_calls evs = 1
       \<and> (Sleep_for 1 \<in> set evs \<longleftrightarrow> \<not> reconnect env)"
    using tick by (simp add: reconnect_calls_def)
  have many: "reconnect_calls evs' = length envs \<and> published evs' = [] \<and> r' = None"
    using run_ticks_all_lost [OF assms(3), of n] assms(4) by auto
  from tick one many show ?thesis by blast
qed

theorem C4_witness:
  "connection_lost tick_gyro_lost
   \<and> list_all connection_lost [tick_gyro_lost, tick_accel_lost, tick_gyro_lost]
   \<and> fst (snd (timer_callback tick_gyro_lost sample_node)) =
       [Log_error (''Sensor connection is lost! Trying to reconnect...'' @ newline),
        Reconnect, Sleep_for 1]
   \<and> reconnect_calls
        (fst (snd (run_ticks [tick_gyro_lost, tick_accel_lost, tick_gyro_lost] sample_node))) = 3"
proof -
  have h1: "connection_lost tick_gyro_lost"
    by (rule connection_lost_samples)
  have h2: "timer_callback tick_gyro_lost sample_node =
              (fst (timer_callback tick_gyro_lost sample_node),
               fst (snd (timer_callback tick_gyro_lost sample_node)),
               snd (snd (timer_callback tick_gyro_lost sample_node)))"
    by simp
  have h3: "list_all connection_lost [tick_gyro_lost, tick_accel_lost, tick_gyro_lost]"
    by (simp add: connection_lost_samples)
  have h4: "run_ticks [tick_gyro_lost, tick_accel_lost, tick_gyro_lost] sample_node =
              (fst (run_ticks [tick_gyro_lost, tick_accel_lost, tick_gyro_lost] sample_node),
               fst (snd (run_ticks [tick_gyro_lost, tick_accel_lost, tick_gyro_lost] sample_node)),
               snd (snd (run_ticks [tick_gyro_lost, tick_accel_lost, tick_gyro_lost] sample_node)))"
    by simp
  have r: "\<not> reconnect tick_gyro_lost"
    by (simp add: tick_gyro_lost_def)
  from C4_failed_read_reconnects_once [OF h1 h2 h3 h4] h1 h3 r show ?thesis
    by simp
qed

text \<open>
  Claim C9. On a tick on which a sensor read raises the recoverable connection error, the
  header of the reused message buffer already holds the time stamp and the frame id of
  this tick, the measurements and the covariances of the buffer are the ones it held before
  the tick, and nothing is published.
\<close>

theorem C9_failed_tick_overwrites_header_only:
  assumes "connection_lost env"
      and "timer_callback env n = (n', evs, r)"
  shows "stamp (header (imuMsg n')) = now env
       \<and> frame_id (header (imuMsg n')) = frameId n
       \<and> linear_acceleration (imuMsg n') = linear_acceleration (imuMsg n)
       \<and> angular_velocity (imuMsg n') = angular_velocity (imuMsg n)
       \<and> orientation (imuMsg n') = orientation (imuMsg n)
       \<and> linear_acceleration_covariance (imuMsg n') = linear_acceleration_covariance (imuMsg n)
       \<and> angular_velocity_covariance (imuMsg n') = angular_velocity_covariance (imuMsg n)
       \<and> orientation_covariance (imuMsg n') = orientation_covariance (imuMsg n)
       \<and> frameId n' = frameId n
       \<and> published evs = []"
proof -
  have lost: "read_raises env Runtime_error"
    using assms(1) by (simp add: connection_lost_def)
  have n': "n' = stamped env n" and evs: "published evs = []"
    using timer_callback_raises [OF lost, of n] assms(2) by (simp_all add: timer_handler_def)
  have "header (imuMsg n') = \<lparr>stamp = now env, frame_id = frameId n\<rparr>"
    unfolding n' by (rule header_stamped)
  then have hdr: "stamp (header (imuMsg n')) = now env \<and> frame_id (header (imuMsg n')) = frameId n"
    by simp
  have rest: "linear_acceleration (imuMsg n') = linear_acceleration (imuMsg n)
       \<and> angular_velocity (imuMsg n') = angular_velocity (imuMsg n)
       \<and> orientation (imuMsg n') = orientation (imuMsg n)
       \<and> linear_acceleration_covariance (imuMsg n') = linear_acceleration_covariance (imuMsg n)
       \<and> angular_velocity_covariance (imuMsg n') = angular_velocity_covariance (imuMsg n)
       \<and> orientation_covariance (imuMsg n') = orientation_covariance (imuMsg n)
       \<and> frameId n' = frameId n"
    unfolding n' by (simp add: stamped_def)
  from hdr rest evs show ?thesis by blast
qed

theorem C9_witness:
  "connection_lost tick_accel_lost
   \<and> stamp (header (imuMsg (fst (timer_callback tick_accel_lost sample_node)))) = 9
   \<and> frame_id (header (imuMsg (fst (timer_callback tick_accel_lost sample_node)))) = ''imu_link''
   \<and> linear_acceleration (imuMsg (fst (timer_callback tick_accel_lost sample_node)))
       = linear_acceleration (imuMsg sample_node)
   \<and> published (fst (snd (timer_callback tick_accel_lost sample_node))) = []"
proof -
  have h1: "connection_lost tick_accel_lost"
    by (rule connection_lost_samples)
  have h2: "timer_callback tick_accel_lost sample_node =
              (fst (timer_callback tick_accel_lost sample_node),
               fst (snd (timer_callback tick_accel_lost sample_node)),
               snd (snd (timer_callback tick_accel_lost sample_node)))"
    by simp
  have v: "now tick_accel_lost = 9" "frameId sample_node = ''imu_link''"
    by (simp_all add: tick_accel_lost_def sample_node_def)
  from C9_failed_tick_overwrites_header_only [OF h1 h2] h1 v show ?thesis
    by simp
qed

text \<open>
  Claim C6. Whatever the ticks of an execution do, each published message carries the three
  measurements that the three reads of one and the same tick returned, all three of them
  successful, together with the time stamp of that tick.
\<close>

theorem C6_published_messages_from_one_cycle:
  assumes "run_ticks envs n = (n', evs, r)" and "m \<in> set (published evs)"
  shows "\<exists>env \<in> set envs.
           getAccelMsq env = Inr (linear_acceleration m)
         \<and> getGyroRps env = Inr (angular_velocity m)
         \<and> getQuaternion env = Inr (orientation m)
         \<and> stamp (header m) = now env"
  using run_ticks_published [OF assms] by blast

theorem C6_witness:
  "published (fst (snd (run_ticks [tick_gyro_lost, tick_reads_ok] sample_node))) \<noteq> []
   \<and> (\<exists>env \<in> set [tick_gyro_lost, tick_reads_ok].
         getAccelMsq env = Inr (linear_acceleration
           (hd (published (fst (snd (run_ticks [tick_gyro_lost, tick_reads_ok] sample_node))))))
       \<and> getGyroRps env = Inr (angular_velocity
           (hd (published (fst (snd (run_ticks [tick_gyro_lost, tick_reads_ok] sample_node))))))
       \<and> getQuaternion env = Inr (orientation
           (hd (published (fst (snd (run_ticks [tick_gyro_lost, tick_reads_ok] sample_node))))))
       \<and> stamp (header
           (hd (published (fst (snd (run_ticks [tick_gyro_lost, tick_reads_ok] sample_node))))))
           = now env)"
proof -
  have h: "run_ticks [tick_gyro_lost, tick_reads_ok] sample_node =
             (fst (run_ticks [tick_gyro_lost, tick_reads_ok] sample_node),
              fst (snd (run_ticks [tick_gyro_lost, tick_reads_ok] sample_node)),
              snd (snd (run_ticks [tick_gyro_lost, tick_reads_ok] sample_node)))"
    by simp
  have ne: "published (fst (snd (run_ticks [tick_gyro_lost, tick_reads_ok] sample_node))) \<noteq> []"
    by (simp add: timer_callback_gyro_lost timer_callback_sample_ok)
  then have "hd (published (fst (snd (run_ticks [tick_gyro_lost, tick_reads_ok] sample_node))))
               \<in> set (published (fst (snd (run_ticks [tick_gyro_lost, tick_reads_ok] sample_node))))"
    by (rule hd_in_set)
  from C6_published_messages_from_one_cycle [OF h this] ne show ?thesis
    by blast
qed

section \<open>Properties of the constructed node\<close>

lemma covariance_loop_default:
  "covariance_loop Imu_default =
     \<lparr>header = \<lparr>stamp = 0, frame_id = []\<rparr>,
      orientation = \<lparr>qw = 1, qx = 0, qy = 0, qz = 0\<rparr>,
      orientation_covariance = [159 / 10 ^ 4, 0, 0, 159 / 10 ^ 4, 0, 0, 159 / 10 ^ 4, 0, 0],
      angular_velocity = \<lparr>vx = 0, vy = 0, vz = 0\<rparr>,
      angular_velocity_covariance = [305 / 10 ^ 8, 0, 0, 305 / 10 ^ 8, 0, 0, 305 / 10 ^ 8, 0, 0],
      linear_acceleration = \<lparr>vx = 0, vy = 0, vz = 0\<rparr>,
      linear_acceleration_covariance =
        [6753 / 10 ^ 8, 0, 0, 6753 / 10 ^ 8, 0, 0, 6753 / 10 ^ 8, 0, 0]\<rparr>"
  by code_simp

text \<open>
  Claim C1, evaluated on the code. After construction each of the three covariance arrays
  holds its constant at the indices 0, 3 and 6, the first column of the row-major matrix,
  and zero elsewhere: the diagonal entries 4 and 8 are zero. The claim places the constants
  at the indices 0, 4 and 8. That the ticks leave the arrays as the constructor set them is
  \<open>run_ticks_covariance\<close>.
\<close>

theorem C1_constants_in_first_column:
  "\<exists>n. snd (MinimalPublisher_ctor Map.empty None ''/dev/i2c-1'' 40) = Inr n
     \<and> linear_acceleration_covariance (imuMsg n) =
          [6753 / 10 ^ 8, 0, 0, 6753 / 10 ^ 8, 0, 0, 6753 / 10 ^ 8, 0, 0]
     \<and> angular_velocity_covariance (imuMsg n) =
          [305 / 10 ^ 8, 0, 0, 305 / 10 ^ 8, 0, 0, 305 / 10 ^ 8, 0, 0]
     \<and> orientation_covariance (imuMsg n) =
          [159 / 10 ^ 4, 0, 0, 159 / 10 ^ 4, 0, 0, 159 / 10 ^ 4, 0, 0]
     \<and> linear_acceleration_covariance (imuMsg n) ! 4 = 0
     \<and> linear_acceleration_covariance (imuMsg n) ! 3 \<noteq> 0"
  by (simp add: MinimalPublisher_ctor_def covariance_loop_default)

text \<open>
  Claim C5. On a tick of a constructed node on which the three reads succeed, exactly one
  message is published; its linear acceleration, angular velocity and orientation are the
  values the three reads returned, its frame id is the value resolved at construction, and
  its time stamp is the time of the tick.
\<close>

theorem C5_successful_tick_publishes_reads:
  assumes "MinimalPublisher_ctor params None devDirectory devAddress = (cevs, Inr n0)"
      and "run_ticks envs n0 = (n, evs0, None)"
      and "getAccelMsq env = Inr accel"
      and "getGyroRps env = Inr gyro"
      and "getQuaternion env = Inr quats"
      and "timer_callback env n = (n', evs, r)"
  shows "\<exists>m. evs = [Publish m] \<and> r = None
           \<and> linear_acceleration m = accel
           \<and> angular_velocity m = gyro
           \<and> orientation m = quats
           \<and> frame_id (header m) = declare_parameter params ''frame_id'' ''imu_link''
           \<and> stamp (header m) = now env"
proof -
  have "frameId n0 = declare_parameter params ''frame_id'' ''imu_link''"
    using assms(1) by (auto simp: MinimalPublisher_ctor_def)
  with run_ticks_frameId [OF assms(2)]
  have f: "frameId n = declare_parameter params ''frame_id'' ''imu_link''"
    by simp
  from timer_callback_reads_ok [OF assms(3,4,5), of n] assms(6) f show ?thesis
    by (auto simp: header_stamped)
qed

theorem C5_witness:
  "MinimalPublisher_ctor Map.empty None ''/dev/i2c-1'' 40 =
     ([Sensor_open ''/dev/i2c-1'' 40, Declare_parameter ''frame_id'' ''imu_link'',
       Create_publisher ''imu'', Create_wall_timer 10], Inr sample_node)
   \<and> snd (snd (run_ticks [tick_gyro_lost] sample_node)) = None
   \<and> (\<exists>m. fst (snd (timer_callback tick_reads_ok (fst (run_ticks [tick_gyro_lost] sample_node))))
             = [Publish m]
          \<and> linear_acceleration m = \<lparr>vx = 1, vy = 2, vz = 3\<rparr>
          \<and> angular_velocity m = \<lparr>vx = 4, vy = 5, vz = 6\<rparr>
          \<and> orientation m = \<lparr>qw = 1, qx = 0, qy = 0, qz = 0\<rparr>
          \<and> frame_id (header m) = ''imu_link''
          \<and> stamp (header m) = 7)"
proof -
  have h1: "MinimalPublisher_ctor Map.empty None ''/dev/i2c-1'' 40 =
     ([Sensor_open ''/dev/i2c-1'' 40, Declare_parameter ''frame_id'' ''imu_link'',
       Create_publisher ''imu'', Create_wall_timer 10], Inr sample_node)"
    by (simp add: MinimalPublisher_ctor_def sample_node_def declare_parameter_def)
  have h2: "run_ticks [tick_gyro_lost] sample_node =
              (fst (run_ticks [tick_gyro_lost] sample_node),
               fst (snd (run_ticks [tick_gyro_lost] sample_node)), None)"
    by (simp add: timer_callback_gyro_lost)
  have h3: "getAccelMsq tick_reads_ok = Inr \<lparr>vx = 1, vy = 2, vz = 3\<rparr>"
    and h4: "getGyroRps tick_reads_ok = Inr \<lparr>vx = 4, vy = 5, vz = 6\<rparr>"
    and h5: "getQuaternion tick_reads_ok = Inr \<lparr>qw = 1, qx = 0, qy = 0, qz = 0\<rparr>"
    by (simp_all add: tick_reads_ok_def)
  have h6: "timer_callback tick_reads_ok (fst (run_ticks [tick_gyro_lost] sample_node)) =
     (fst (timer_callback tick_reads_ok (fst (run_ticks [tick_gyro_lost] sample_node))),
      fst (snd (timer_callback tick_reads_ok (fst (run_ticks [tick_gyro_lost] sample_node)))),
      snd (snd (timer_callback tick_reads_ok (fst (run_ticks [tick_gyro_lost] sample_node)))))"
    by simp
  have v: "declare_parameter Map.empty ''frame_id'' ''imu_link'' = ''imu_link''"
          "now tick_reads_ok = 7"
    by (simp_all add: declare_parameter_def tick_reads_ok_def)
  have s: "snd (snd (run_ticks [tick_gyro_lost] sample_node)) = None"
    by (simp add: timer_callback_gyro_lost)
  from C5_successful_tick_publishes_reads [OF h1 h2 h3 h4 h5 h6] h1 s v show ?thesis
    by auto
qed

text \<open>
  Claim C8. The constructor resolves the frame id once, asking the parameter collaborator
  for \<^verbatim>\<open>frame_id\<close> with the default \<^verbatim>\<open>imu_link\<close>; no tick asks again or
  changes the resolved value, and every message published by the node carries it.
\<close>

theorem C8_frame_id_resolved_once:
  assumes "MinimalPublisher_ctor params None devDirectory devAddress = (cevs, Inr n0)"
      and "run_ticks envs n0 = (n, evs, r)"
  shows "filter is_declare_parameter cevs = [Declare_parameter ''frame_id'' ''imu_link'']
       \<and> filter is_declare_parameter evs = []
       \<and> frameId n0 = (case params ''frame_id'' of None \<Rightarrow> ''imu_link'' | Some v \<Rightarrow> v)
       \<and> frameId n = frameId n0
       \<and> (\<forall>m \<in> set (published evs). frame_id (header m) = frameId n0)"
proof -
  have c: "filter is_declare_parameter cevs = [Declare_parameter ''frame_id'' ''imu_link'']"
    and f: "frameId n0 = (case params ''frame_id'' of None \<Rightarrow> ''imu_link'' | Some v \<Rightarrow> v)"
    using assms(1)
    by (auto simp: MinimalPublisher_ctor_def is_declare_parameter_def declare_parameter_def)
  have p: "\<forall>m \<in> set (published evs). frame_id (header m) = frameId n0"
    using run_ticks_published [OF assms(2)] by blast
  from c f p run_ticks_no_declare [OF assms(2)] run_ticks_frameId [OF assms(2)]
  show ?thesis by simp
qed

theorem C8_witness:
  "MinimalPublisher_ctor [''frame_id'' \<mapsto> ''base_imu''] None ''/dev/i2c-1'' 40 =
     ([Sensor_open ''/dev/i2c-1'' 40, Declare_parameter ''frame_id'' ''imu_link'',
       Create_publisher ''imu'', Create_wall_timer 10], Inr (sample_node\<lparr>frameId := ''base_imu''\<rparr>))
   \<and> map (\<lambda>m. frame_id (header m))
        (published (fst (snd (run_ticks [tick_reads_ok, tick_gyro_lost, tick_reads_ok]
                                (sample_node\<lparr>frameId := ''base_imu''\<rparr>)))))
       = [''base_imu'', ''base_imu'']"
proof -
  define ms where
    "ms = published (fst (snd (run_ticks [tick_reads_ok, tick_gyro_lost, tick_reads_ok]
                                 (sample_node\<lparr>frameId := ''base_imu''\<rparr>))))"
  have h1: "MinimalPublisher_ctor [''frame_id'' \<mapsto> ''base_imu''] None ''/dev/i2c-1'' 40 =
     ([Sensor_open ''/dev/i2c-1'' 40, Declare_parameter ''frame_id'' ''imu_link'',
       Create_publisher ''imu'', Create_wall_timer 10], Inr (sample_node\<lparr>frameId := ''base_imu''\<rparr>))"
    by (simp add: MinimalPublisher_ctor_def sample_node_def declare_parameter_def)
  have h2: "run_ticks [tick_reads_ok, tick_gyro_lost, tick_reads_ok]
              (sample_node\<lparr>frameId := ''base_imu''\<rparr>) =
     (fst (run_ticks [tick_reads_ok, tick_gyro_lost, tick_reads_ok]
              (sample_node\<lparr>frameId := ''base_imu''\<rparr>)),
      fst (snd (run_ticks [tick_reads_ok, tick_gyro_lost, tick_reads_ok]
              (sample_node\<lparr>frameId := ''base_imu''\<rparr>))),
      snd (snd (run_ticks [tick_reads_ok, tick_gyro_lost, tick_reads_ok]
              (sample_node\<lparr>frameId := ''base_imu''\<rparr>))))"
    by simp
  have "length ms = 2"
    unfolding ms_def by (simp add: timer_callback_gyro_lost timer_callback_sample_ok)
  then obtain a b where ab: "ms = [a, b]"
    by (auto simp: length_Suc_conv numeral_2_eq_2)
  from C8_frame_id_resolved_once [OF h1 h2]
  have "\<forall>m \<in> set ms. frame_id (header m) = ''base_imu''"
    unfolding ms_def by simp
  with ab have "map (\<lambda>m. frame_id (header m)) ms = [''base_imu'', ''base_imu'']"
    by simp
  with h1 show ?thesis
    unfolding ms_def by simp
qed

section \<open>Properties of the entry point\<close>

text \<open>
  Each iteration of the loop of \<^verbatim>\<open>main\<close> opens the sensor once: while the construction
  attempts either succeed or throw \<^verbatim>\<open>std::runtime_error\<close>, the trace holds one
  \<open>Sensor_open\<close> per iteration, and the ticks of the event loop add none.
\<close>

lemma is_sensor_open_values:
  "is_sensor_open (Sensor_open d a)"
  "\<not> is_sensor_open Rclcpp_init"
  "\<not> is_sensor_open (Log_error msg)"
  "\<not> is_sensor_open (Declare_parameter name dflt)"
  "\<not> is_sensor_open (Create_publisher topic)"
  "\<not> is_sensor_open (Create_wall_timer period)"
  "\<not> is_sensor_open Node_constructed"
  "\<not> is_sensor_open Node_destroyed"
  "\<not> is_sensor_open (Publish m)"
  "\<not> is_sensor_open Reconnect"
  "\<not> is_sensor_open (Sleep_for k)"
  "\<not> is_sensor_open Spin"
  "\<not> is_sensor_open Rclcpp_shutdown"
  by (simp_all add: is_sensor_open_def)

lemma ctor_opens_once:
  "filter is_sensor_open (fst (MinimalPublisher_ctor params opened devDirectory devAddress))
     = [Sensor_open devDirectory devAddress]"
  by (simp add: MinimalPublisher_ctor_def is_sensor_open_values split: option.splits)

lemma timer_callback_no_open:
  "timer_callback env n = (n', evs, r) \<Longrightarrow> filter is_sensor_open evs = []"
  by (auto simp: timer_callback_def timer_handler_def is_sensor_open_values Let_def
        split: sum.splits if_splits)

lemma run_ticks_no_open:
  "run_ticks envs n = (n', evs, r) \<Longrightarrow> filter is_sensor_open evs = []"
proof (induction envs arbitrary: n n' evs r)
  case Nil
  then show ?case by simp
next
  case (Cons env envs)
  obtain n1 evs1 r1 where step: "timer_callback env n = (n1, evs1, r1)"
    by (cases "timer_callback env n") auto
  note d1 = timer_callback_no_open [OF step]
  show ?case
  proof (cases r1)
    case None
    obtain n2 evs2 r2 where rest: "run_ticks envs n1 = (n2, evs2, r2)"
      by (cases "run_ticks envs n1") auto
    with Cons.prems step None have "evs = evs1 @ evs2" by simp
    with Cons.IH [OF rest] d1 show ?thesis by simp
  next
    case (Some e)
    with Cons.prems step have "evs = evs1" by simp
    with d1 show ?thesis by simp
  qed
qed

lemma supervise_one_open_per_iteration:
  assumes "list_all (\<lambda>opened. opened = None \<or> opened = Some Runtime_error) opens"
      and "length (takeWhile (\<lambda>ok. ok) oks) \<le> length opens"
  shows "length (filter is_sensor_open
                   (fst (supervise params devDirectory devAddress oks opens ticks node)))
           = length (takeWhile (\<lambda>ok. ok) oks)"
  using assms
proof (induction params devDirectory devAddress oks opens ticks node rule: supervise.induct)
  case (1 params devDirectory devAddress opens ticks node)
  show ?case by simp
next
  case (2 params devDirectory devAddress oks opens ticks node)
  show ?case
  proof (cases node)
    case None
    then show ?thesis by (simp add: is_sensor_open_values)
  next
    case (Some n)
    obtain n' evs r where run: "run_ticks ticks n = (n', evs, r)"
      by (cases "run_ticks ticks n") auto
    from run_ticks_no_open [OF run] Some run show ?thesis
      by (cases r) (simp_all add: is_sensor_open_values)
  qed
next
  case (3 params devDirectory devAddress oks ticks node)
  then show ?case by simp
next
  case (4 params devDirectory devAddress oks opened opens ticks node)
  from "4.prems" have o: "opened = None \<or> opened = Some Runtime_error"
    and rest: "list_all (\<lambda>opened. opened = None \<or> opened = Some Runtime_error) opens"
    and len: "length (takeWhile (\<lambda>ok. ok) oks) \<le> length opens"
    by simp_all
  from o show ?case
  proof
    assume ok: "opened = None"
    then obtain n where c: "MinimalPublisher_ctor params opened devDirectory devAddress =
        ([Sensor_open devDirectory devAddress, Declare_parameter ''frame_id'' ''imu_link'',
          Create_publisher ''imu'', Create_wall_timer 10], Inr n)"
      by (simp add: MinimalPublisher_ctor_def)
    from "4.IH"(2) [OF c [symmetric] refl rest len] c show ?thesis
      by (auto simp: is_sensor_open_values split: prod.splits)
  next
    assume bad: "opened = Some Runtime_error"
    then have c: "MinimalPublisher_ctor params opened devDirectory devAddress =
        ([Sensor_open devDirectory devAddress], Inl Runtime_error)"
      by (simp add: MinimalPublisher_ctor_def)
    from "4.IH"(1) [OF c [symmetric] refl refl rest len] c show ?thesis
      by (auto simp: is_sensor_open_values split: prod.splits)
  qed
qed

lemma stoul16_samples:
  "stoul16 ''28'' = Inr 40"
  "stoul16 ''0x28'' = Inr 40"
  "stoul16 ''28zz'' = Inr 40"
  "stoul16 ''zz'' = Inl Invalid_argument"
  "stoul16 '''' = Inl Invalid_argument"
  "stoul16 ''100'' = Inr 256"
  "stoul16 ''-1'' = Inr (2 ^ 64 - 1)"
  "stoul16 ''FFFFFFFFFFFFFFFF'' = Inr (2 ^ 64 - 1)"
  "stoul16 ''10000000000000000'' = Inl Out_of_range"
  by (simp_all add: stoul16_def skip_sign_def skip_0x_def hex_digit_value_def hex_value_def
        ULONG_MAX_def isspace_def)











text \<open>
  Claim C10. The address \<^verbatim>\<open>10000000000000000\<close> consists of seventeen hexadecimal
  digits and its value exceeds \<^verbatim>\<open>ULONG_MAX\<close>: the parse throws
  \<^verbatim>\<open>std::out_of_range\<close>, which the handler of \<^verbatim>\<open>std::invalid_argument\<close> does not
  catch, so \<^verbatim>\<open>main\<close> is left by the exception without logging an invalid address and
  without returning.
\<close>

theorem C10_out_of_range_not_caught:
  "hex_digits ''10000000000000000'' = [1, 0, 0, 0, 0, 0, 0, 0, 0, 0, 0, 0, 0, 0, 0, 0, 0]
   \<and> stoul16 ''10000000000000000'' = Inl Out_of_range
   \<and> main [''bno055_publisher'', ''/dev/i2c-1'', ''10000000000000000''] params oks opens ticks
       = ([Rclcpp_init], Some (Uncaught Out_of_range))"
  by (simp add: main_def stoul16_samples hex_digit_value_def)

text \<open>
  Claim C2, evaluated on the code. With \<^verbatim>\<open>rclcpp::ok()\<close> true twice and then false,
  and a sensor that opens on each attempt, the loop constructs a node, sleeps, and
  constructs a second node: a successful construction does not end the loop, and
  \<^verbatim>\<open>rclcpp::spin\<close> is reached only after \<^verbatim>\<open>rclcpp::ok()\<close> has become false.
\<close>

theorem C2_constructs_again_after_success:
  "main [''bno055_publisher'', ''/dev/i2c-1'', ''28''] Map.empty [True, True, False] [None, None] []
     = ([Rclcpp_init,
         Sensor_open ''/dev/i2c-1'' 40, Declare_parameter ''frame_id'' ''imu_link'',
         Create_publisher ''imu'', Create_wall_timer 10, Node_constructed, Sleep_for 1,
         Sensor_open ''/dev/i2c-1'' 40, Declare_parameter ''frame_id'' ''imu_link'',
         Create_publisher ''imu'', Create_wall_timer 10, Node_constructed, Node_destroyed,
         Sleep_for 1,
         Spin, Rclcpp_shutdown, Node_destroyed],
        Some (Returned 0))"
  by (simp add: main_def Let_def stoul16_samples MinimalPublisher_ctor_def)

text \<open>
  Claim C3, evaluated on the code. On the same input, after the first twelve events two
  nodes are alive: the second node has been constructed and the first, still held by the
  shared pointer, has not yet been released.
\<close>

theorem C3_two_nodes_alive:
  "live_nodes (take 12 (fst (main [''bno055_publisher'', ''/dev/i2c-1'', ''28''] Map.empty
                               [True, True, False] [None, None] []))) = 2"
  by (simp add: main_def Let_def stoul16_samples MinimalPublisher_ctor_def)

end
